theory Spec2Isabelle
  imports Main "HOL-Library.Char_ord" "HOL-Library.List_Lexorder"
begin

section \<open>Data model\<close>

text \<open>
  Modelled from the spec: the modules \<^verbatim>\<open>taipan.ast\<close>, \<^verbatim>\<open>taipan.symbol_table\<close> and
  \<^verbatim>\<open>taipan.exceptions\<close> are imported by \<^verbatim>\<open>analyzer.py\<close> and \<^verbatim>\<open>emitter.py\<close> but are not part
  of the sources at hand. Their types are reconstructed from the attributes the two modules
  read and from the data model of the specification: a Location has a file and a start
  position with a line and a column; a Symbol Table maps a declared name to the Location of
  its declaration, and \<^verbatim>\<open>lookup\<close> returns that Location or \<^verbatim>\<open>None\<close>.
\<close>

record position =
  line :: int
  column :: int

record location =
  file_name :: string
  start :: position

type_synonym symbol_table = "string \<rightharpoonup> location"

definition lookup :: "symbol_table \<Rightarrow> string \<Rightarrow> location option" where
  "lookup table n = table n"

text \<open>
  Modelled from the spec: the operator enumerations of \<^verbatim>\<open>taipan.ast\<close> are not at hand. The
  code only ever reads \<^verbatim>\<open>operator.value\<close>, the literal spelling, so an operator is
  represented by that spelling.
\<close>

type_synonym operator = string

record ident =
  name :: string
  location :: location

text \<open>
  The number payload of \<^verbatim>\<open>Number\<close> is a Python float; it is kept abstract (type \<open>'n\<close>) since
  the code only passes it to \<^verbatim>\<open>str\<close>. \<^verbatim>\<open>String\<close> is one of the expression variants (a primary
  of the grammar): the emitter has a case for it, the value of a \<^verbatim>\<open>Print\<close> is matched against
  it first, and the analyzer's expression traversal has no case for it.
\<close>

datatype 'n expression =
    Number 'n
  | Identifier ident
  | String string
  | UnaryExpression operator "'n expression"
  | BinaryExpression operator "'n expression" "'n expression"
  | Comparison operator "'n expression" "'n expression"
  | ParentheseExpression "'n expression"

text \<open>
  The \<^verbatim>\<open>block\<close> attribute of \<^verbatim>\<open>If\<close> and \<^verbatim>\<open>While\<close> is handed to the general statement
  traversal by both passes, so it is a statement here; in the source it always is a
  \<^verbatim>\<open>Block\<close>.
\<close>

datatype 'n statement =
    Block symbol_table "'n statement list"
  | If "'n expression" "'n statement"
  | While "'n expression" "'n statement"
  | Input ident
  | Print "'n expression"
  | Assignment ident "'n expression"
  | Declaration ident "'n expression option"

datatype 'n program = Program (block: "'n statement")

datatype 'n AST = AST (root: "'n program")

datatype error =
    TaipanSemanticError location string
  | AssertionError
  | IndexError
  | KeyError

section \<open>Analyzer (analyzer.py)\<close>

text \<open>
  The scope stack is the deque \<^verbatim>\<open>symbol_tables\<close>; its right end (the innermost block) is
  the last element of the list. \<^verbatim>\<open>_is_defined\<close> walks it from the innermost table
  outwards and goes on to the next table when the name is absent or declared too late.
  The test \<^verbatim>\<open>not symbol\<close> holds exactly when \<^verbatim>\<open>lookup\<close> returned \<^verbatim>\<open>None\<close>: a Location is an
  object without a truth value of its own.
\<close>

fun is_defined_loop :: "symbol_table list \<Rightarrow> ident \<Rightarrow> bool" where
  "is_defined_loop [] ident = False"
| "is_defined_loop (table # tables) ident =
     (case lookup table (name ident) of
        None \<Rightarrow> is_defined_loop tables ident
      | Some symbol \<Rightarrow>
          if line (start (location ident)) > line (start symbol) then True
          else is_defined_loop tables ident)"

definition is_defined :: "symbol_table list \<Rightarrow> ident \<Rightarrow> bool" where
  "is_defined symbol_tables ident = is_defined_loop (rev symbol_tables) ident"

definition not_defined_message :: "string \<Rightarrow> string" where
  "not_defined_message n = ''Identifier '' @ [CHR 0x27] @ n @ [CHR 0x27] @ '' is not defined''"

text \<open>
  \<^verbatim>\<open>_analyze_expression\<close> ends in \<^verbatim>\<open>case other: assert_never(other)\<close>, which raises an
  \<^verbatim>\<open>AssertionError\<close> when it is reached: that is the path of a \<^verbatim>\<open>String\<close> node.
\<close>

fun analyze_expression :: "symbol_table list \<Rightarrow> 'n expression \<Rightarrow> error + unit" where
  "analyze_expression symbol_tables (Number v) = Inr ()"
| "analyze_expression symbol_tables (Identifier i) =
     (if \<not> is_defined symbol_tables i
      then Inl (TaipanSemanticError (location i) (not_defined_message (name i)))
      else Inr ())"
| "analyze_expression symbol_tables (UnaryExpression operator v) =
     analyze_expression symbol_tables v"
| "analyze_expression symbol_tables (BinaryExpression operator left right) =
     (case analyze_expression symbol_tables left of
        Inl e \<Rightarrow> Inl e
      | Inr _ \<Rightarrow> analyze_expression symbol_tables right)"
| "analyze_expression symbol_tables (Comparison operator left right) =
     (case analyze_expression symbol_tables left of
        Inl e \<Rightarrow> Inl e
      | Inr _ \<Rightarrow> analyze_expression symbol_tables right)"
| "analyze_expression symbol_tables (ParentheseExpression v) =
     analyze_expression symbol_tables v"
| "analyze_expression symbol_tables (String s) = Inl AssertionError"

definition pop :: "symbol_table list \<Rightarrow> error + symbol_table list" where
  "pop symbol_tables = (if symbol_tables = [] then Inl IndexError else Inr (butlast symbol_tables))"

text \<open>
  \<^verbatim>\<open>_analyze_statement\<close> threads the scope stack; \<open>analyze_statements\<close> is the \<^verbatim>\<open>for\<close> loop
  of the \<^verbatim>\<open>Block\<close> case. The result is the stack after the statement, or the first error.
\<close>

fun analyze_statement :: "symbol_table list \<Rightarrow> 'n statement \<Rightarrow> error + symbol_table list"
  and analyze_statements :: "symbol_table list \<Rightarrow> 'n statement list \<Rightarrow> error + symbol_table list"
where
  "analyze_statement symbol_tables (Block table statements) =
     (case analyze_statements (symbol_tables @ [table]) statements of
        Inl e \<Rightarrow> Inl e
      | Inr symbol_tables' \<Rightarrow> pop symbol_tables')"
| "analyze_statement symbol_tables (If condition body) =
     (case analyze_expression symbol_tables condition of
        Inl e \<Rightarrow> Inl e
      | Inr _ \<Rightarrow> analyze_statement symbol_tables body)"
| "analyze_statement symbol_tables (While condition body) =
     (case analyze_expression symbol_tables condition of
        Inl e \<Rightarrow> Inl e
      | Inr _ \<Rightarrow> analyze_statement symbol_tables body)"
| "analyze_statement symbol_tables (Input i) =
     (case analyze_expression symbol_tables (Identifier i :: 'n expression) of
        Inl e \<Rightarrow> Inl e
      | Inr _ \<Rightarrow> Inr symbol_tables)"
| "analyze_statement symbol_tables (Print v) =
     (case v of
        String s \<Rightarrow> Inr symbol_tables
      | _ \<Rightarrow>
          (case analyze_expression symbol_tables v of
             Inl e \<Rightarrow> Inl e
           | Inr _ \<Rightarrow> Inr symbol_tables))"
| "analyze_statement symbol_tables (Assignment i expr) =
     (case analyze_expression symbol_tables (Identifier i :: 'n expression) of
        Inl e \<Rightarrow> Inl e
      | Inr _ \<Rightarrow>
          (case analyze_expression symbol_tables expr of
             Inl e \<Rightarrow> Inl e
           | Inr _ \<Rightarrow> Inr symbol_tables))"
| "analyze_statement symbol_tables (Declaration i expr) = Inr symbol_tables"
| "analyze_statements symbol_tables [] = Inr symbol_tables"
| "analyze_statements symbol_tables (statement # statements) =
     (case analyze_statement symbol_tables statement of
        Inl e \<Rightarrow> Inl e
      | Inr symbol_tables' \<Rightarrow> analyze_statements symbol_tables' statements)"

definition analyze :: "'n AST \<Rightarrow> error + unit" where
  "analyze ast =
     (case analyze_statement [] (block (root ast)) of
        Inl e \<Rightarrow> Inl e
      | Inr _ \<Rightarrow> Inr ())"

section \<open>Emitter (emitter.py)\<close>

datatype Function = Function (func_name: string) (template: string) (func_libraries: "string list")

definition FUNCTIONS :: "Function list" where
  "FUNCTIONS =
     [Function ''print'' ''print.j2'' [''stdio.h''],
      Function ''input'' ''input.j2'' [''stdio.h'']]"

definition FUNCTION_MAPPING :: "string \<rightharpoonup> Function" where
  "FUNCTION_MAPPING = foldl (\<lambda>m func. m(func_name func \<mapsto> func)) Map.empty FUNCTIONS"

text \<open>
  What the emitter takes from outside the repository is a parameter of the model:
  \<^item> \<open>str\<close>: Python's \<^verbatim>\<open>str\<close> on the float of a \<^verbatim>\<open>Number\<close>;
  \<^item> \<open>render\<close>: the Jinja rendering of a named template with keyword bindings (the template
    files \<^verbatim>\<open>print.j2\<close> and \<^verbatim>\<open>input.j2\<close> are not at hand);
  \<^item> \<open>iteration\<close>: the order in which Python iterates over a set of strings.
\<close>

datatype binding = Text string | Flag bool

record 'n host =
  str :: "'n \<Rightarrow> string"
  render :: "string \<Rightarrow> (string \<times> binding) list \<Rightarrow> string"
  iteration :: "string set \<Rightarrow> string list"

fun to_string :: "('n \<Rightarrow> string) \<Rightarrow> 'n expression \<Rightarrow> error + string" where
  "to_string str_of (Number v) = Inr (str_of v)"
| "to_string str_of (Identifier i) = Inr (name i)"
| "to_string str_of (BinaryExpression operator left right) =
     (case to_string str_of left of
        Inl e \<Rightarrow> Inl e
      | Inr l \<Rightarrow>
          (case to_string str_of right of
             Inl e \<Rightarrow> Inl e
           | Inr r \<Rightarrow> Inr (l @ operator @ r)))"
| "to_string str_of (UnaryExpression operator v) =
     (case to_string str_of v of
        Inl e \<Rightarrow> Inl e
      | Inr s \<Rightarrow> (case s of [] \<Rightarrow> Inl IndexError | c # _ \<Rightarrow> Inr (operator @ [c])))"
| "to_string str_of (String s) = Inl AssertionError"
| "to_string str_of (Comparison operator left right) = Inl AssertionError"
| "to_string str_of (ParentheseExpression v) = Inl AssertionError"

record emitter =
  code :: string
  libraries :: "string set"

definition Emitter :: emitter where
  "Emitter = \<lparr>code = [], libraries = {}\<rparr>"

definition emit_function :: "'n host \<Rightarrow> string \<Rightarrow> (string \<times> binding) list \<Rightarrow> emitter \<Rightarrow> error + emitter" where
  "emit_function h n kwargs self =
     (case FUNCTION_MAPPING n of
        None \<Rightarrow> Inl KeyError
      | Some func \<Rightarrow>
          Inr (self\<lparr>libraries := foldl (\<lambda>libs library. insert library libs) (libraries self) (func_libraries func),
                    code := code self @ render h (template func) kwargs\<rparr>))"

text \<open>
  \<^verbatim>\<open>Emitter.emit\<close> is one method over every node; here it is one function per node type.
  The cases keep the order in which the source appends to \<^verbatim>\<open>self.code\<close>. A \<^verbatim>\<open>String\<close> is
  emitted between double quotes. A \<^verbatim>\<open>ParentheseExpression\<close> has no case in \<^verbatim>\<open>emit\<close> and
  reaches the final \<^verbatim>\<open>assert False\<close>.
\<close>

definition append_code :: "string \<Rightarrow> emitter \<Rightarrow> emitter" where
  "append_code text self = self\<lparr>code := code self @ text\<rparr>"

fun emit_expression :: "'n host \<Rightarrow> 'n expression \<Rightarrow> emitter \<Rightarrow> error + emitter" where
  "emit_expression h (BinaryExpression operator left right) self =
     (case emit_expression h left self of
        Inl e \<Rightarrow> Inl e
      | Inr self1 \<Rightarrow> emit_expression h right (append_code operator self1))"
| "emit_expression h (UnaryExpression operator v) self =
     emit_expression h v (append_code operator self)"
| "emit_expression h (Comparison operator left right) self =
     (case emit_expression h left self of
        Inl e \<Rightarrow> Inl e
      | Inr self1 \<Rightarrow> emit_expression h right (append_code operator self1))"
| "emit_expression h (Identifier i) self = Inr (append_code (name i) self)"
| "emit_expression h (Number v) self = Inr (append_code (str h v) self)"
| "emit_expression h (String s) self = Inr (append_code ([CHR 0x22] @ s @ [CHR 0x22]) self)"
| "emit_expression h (ParentheseExpression v) self = Inl AssertionError"

fun emit_statement :: "'n host \<Rightarrow> 'n statement \<Rightarrow> emitter \<Rightarrow> error + emitter"
  and emit_statements :: "'n host \<Rightarrow> 'n statement list \<Rightarrow> emitter \<Rightarrow> error + emitter"
where
  "emit_statement h (Block table statements) self = emit_statements h statements self"
| "emit_statement h (If condition body) self =
     (case emit_expression h condition (append_code ''if('' self) of
        Inl e \<Rightarrow> Inl e
      | Inr self1 \<Rightarrow>
          (case emit_statement h body (append_code ''){'' self1) of
             Inl e \<Rightarrow> Inl e
           | Inr self2 \<Rightarrow> Inr (append_code ''}'' self2)))"
| "emit_statement h (While condition body) self =
     (case emit_expression h condition (append_code ''while('' self) of
        Inl e \<Rightarrow> Inl e
      | Inr self1 \<Rightarrow>
          (case emit_statement h body (append_code ''){'' self1) of
             Inl e \<Rightarrow> Inl e
           | Inr self2 \<Rightarrow> Inr (append_code ''}'' self2)))"
| "emit_statement h (Input i) self =
     emit_function h ''input'' [(''identifier'', Text (name i))] self"
| "emit_statement h (Print v) self =
     (case v of
        String s \<Rightarrow>
          emit_function h ''print'' [(''value'', Text s), (''is_number'', Flag False)] self
      | _ \<Rightarrow>
          (case to_string (str h) v of
             Inl e \<Rightarrow> Inl e
           | Inr text \<Rightarrow>
               emit_function h ''print''
                 [(''value'', Text text), (''is_number'', Flag True)] self))"
| "emit_statement h (Declaration i None) self =
     Inr (append_code '';'' (append_code ''0.0''
       (append_code ''='' (append_code (name i) (append_code ''double '' self)))))"
| "emit_statement h (Declaration i (Some expr)) self =
     (case emit_expression h expr
             (append_code ''='' (append_code (name i) (append_code ''double '' self))) of
        Inl e \<Rightarrow> Inl e
      | Inr self1 \<Rightarrow> Inr (append_code '';'' self1))"
| "emit_statement h (Assignment i expr) self =
     (case emit_expression h expr (append_code ''='' (append_code (name i) self)) of
        Inl e \<Rightarrow> Inl e
      | Inr self1 \<Rightarrow> Inr (append_code '';'' self1))"
| "emit_statements h [] self = Inr self"
| "emit_statements h (statement # statements) self =
     (case emit_statement h statement self of
        Inl e \<Rightarrow> Inl e
      | Inr self1 \<Rightarrow> emit_statements h statements self1)"

definition emit_main :: "emitter \<Rightarrow> emitter" where
  "emit_main self = self\<lparr>code := ''int main(){'' @ code self @ ''return 0;}'' @ [CHR 0x0A]\<rparr>"

definition include_directive :: "string \<Rightarrow> string" where
  "include_directive library = ''#include<'' @ library @ ''>'' @ [CHR 0x0A]"

definition emit_header :: "'n host \<Rightarrow> emitter \<Rightarrow> emitter" where
  "emit_header h self =
     self\<lparr>code := foldl (\<lambda>c library. include_directive library @ c) (code self) (iteration h (libraries self))\<rparr>"

fun emit :: "'n host \<Rightarrow> 'n program \<Rightarrow> emitter \<Rightarrow> error + emitter" where
  "emit h (Program b) self =
     (case emit_statement h b self of
        Inl e \<Rightarrow> Inl e
      | Inr self1 \<Rightarrow> Inr (emit_header h (emit_main self1)))"

section \<open>Scoping rule of the specification\<close>

text \<open>
  The specification's rule, in its own words: a name is visible at a use site when some table
  on the stack contains it with a declaration whose line is strictly less than the line of
  the use. \<open>identifiers\<close> lists the identifier uses of an expression from left to right.
\<close>

definition visible :: "symbol_table list \<Rightarrow> ident \<Rightarrow> bool" where
  "visible symbol_tables i \<longleftrightarrow>
     (\<exists>table \<in> set symbol_tables.
        case table (name i) of
          None \<Rightarrow> False
        | Some symbol \<Rightarrow> line (start symbol) < line (start (location i)))"

fun identifiers :: "'n expression \<Rightarrow> ident list" where
  "identifiers (Number v) = []"
| "identifiers (Identifier i) = [i]"
| "identifiers (String s) = []"
| "identifiers (UnaryExpression operator v) = identifiers v"
| "identifiers (BinaryExpression operator left right) = identifiers left @ identifiers right"
| "identifiers (Comparison operator left right) = identifiers left @ identifiers right"
| "identifiers (ParentheseExpression v) = identifiers v"

text \<open>
  \<open>uses_declared enclosing s\<close>: every identifier use in statement \<open>s\<close> (condition, assignment
  target and right-hand side, declaration initializer, print argument, input target) is
  visible from the tables of the blocks that enclose it.
\<close>

fun uses_declared :: "symbol_table list \<Rightarrow> 'n statement \<Rightarrow> bool" where
  "uses_declared enclosing (Block table statements) =
     (\<forall>statement \<in> set statements. uses_declared (enclosing @ [table]) statement)"
| "uses_declared enclosing (If condition body) =
     ((\<forall>i \<in> set (identifiers condition). visible enclosing i) \<and> uses_declared enclosing body)"
| "uses_declared enclosing (While condition body) =
     ((\<forall>i \<in> set (identifiers condition). visible enclosing i) \<and> uses_declared enclosing body)"
| "uses_declared enclosing (Input i) = visible enclosing i"
| "uses_declared enclosing (Print v) = (\<forall>i \<in> set (identifiers v). visible enclosing i)"
| "uses_declared enclosing (Assignment i expr) =
     (visible enclosing i \<and> (\<forall>j \<in> set (identifiers expr). visible enclosing j))"
| "uses_declared enclosing (Declaration i None) = True"
| "uses_declared enclosing (Declaration i (Some expr)) =
     (\<forall>j \<in> set (identifiers expr). visible enclosing j)"

text \<open>
  What the analyzer accepts. \<open>string_free e\<close>: no \<^verbatim>\<open>String\<close> node occurs in \<open>e\<close>.
  \<open>expression_accepted\<close>: the expression is free of strings and each of its identifier uses
  is visible. \<open>accepted enclosing s\<close>: every expression the analyzer visits in \<open>s\<close> is accepted
  under the scope stack in force there; the initializers of declarations are not visited.
\<close>

fun string_free :: "'n expression \<Rightarrow> bool" where
  "string_free (Number v) = True"
| "string_free (Identifier i) = True"
| "string_free (String s) = False"
| "string_free (UnaryExpression operator v) = string_free v"
| "string_free (BinaryExpression operator left right) = (string_free left \<and> string_free right)"
| "string_free (Comparison operator left right) = (string_free left \<and> string_free right)"
| "string_free (ParentheseExpression v) = string_free v"

definition expression_accepted :: "symbol_table list \<Rightarrow> 'n expression \<Rightarrow> bool" where
  "expression_accepted enclosing e \<longleftrightarrow>
     string_free e \<and> (\<forall>i \<in> set (identifiers e). visible enclosing i)"

fun accepted :: "symbol_table list \<Rightarrow> 'n statement \<Rightarrow> bool" where
  "accepted enclosing (Block table statements) =
     (\<forall>statement \<in> set statements. accepted (enclosing @ [table]) statement)"
| "accepted enclosing (If condition body) =
     (expression_accepted enclosing condition \<and> accepted enclosing body)"
| "accepted enclosing (While condition body) =
     (expression_accepted enclosing condition \<and> accepted enclosing body)"
| "accepted enclosing (Input i) = visible enclosing i"
| "accepted enclosing (Print v) =
     (case v of String s \<Rightarrow> True | _ \<Rightarrow> expression_accepted enclosing v)"
| "accepted enclosing (Assignment i expr) =
     (visible enclosing i \<and> expression_accepted enclosing expr)"
| "accepted enclosing (Declaration i expr) = True"

text \<open>
  \<open>checked_uses enclosing s\<close> lists the identifier uses that the analyzer visits in statement
  \<open>s\<close>, each with the scope stack in force at the use. \<open>undeclared_use_error uses err\<close>: the
  error is the semantic error of one of the uses that is not visible, at the location of
  that use.
\<close>

fun checked_uses :: "symbol_table list \<Rightarrow> 'n statement \<Rightarrow> (symbol_table list \<times> ident) list" where
  "checked_uses enclosing (Block table statements) =
     concat (map (checked_uses (enclosing @ [table])) statements)"
| "checked_uses enclosing (If condition body) =
     map (Pair enclosing) (identifiers condition) @ checked_uses enclosing body"
| "checked_uses enclosing (While condition body) =
     map (Pair enclosing) (identifiers condition) @ checked_uses enclosing body"
| "checked_uses enclosing (Input i) = [(enclosing, i)]"
| "checked_uses enclosing (Print v) = map (Pair enclosing) (identifiers v)"
| "checked_uses enclosing (Assignment i expr) =
     (enclosing, i) # map (Pair enclosing) (identifiers expr)"
| "checked_uses enclosing (Declaration i expr) = []"

definition undeclared_use_error :: "(symbol_table list \<times> ident) list \<Rightarrow> error \<Rightarrow> bool" where
  "undeclared_use_error uses err \<longleftrightarrow>
     (\<exists>(tables, i) \<in> set uses. \<not> visible tables i \<and>
        err = TaipanSemanticError (location i) (not_defined_message (name i)))"

text \<open>
  \<open>visit_error uses err\<close>: the error is either the assertion failure of a node without a
  case, or the semantic error of one of the undeclared uses.
\<close>

definition visit_error :: "(symbol_table list \<times> ident) list \<Rightarrow> error \<Rightarrow> bool" where
  "visit_error uses err \<longleftrightarrow> err = AssertionError \<or> undeclared_use_error uses err"

section \<open>Sample programs\<close>

text \<open>
  The programs of \<^verbatim>\<open>tests/test_analyzer.py\<close> as syntax trees, one source line per line
  number, with the symbol table of each block holding the names declared directly in it. A
  number is written as the text \<^verbatim>\<open>str\<close> gives it.
\<close>

definition at_line :: "int \<Rightarrow> location" where
  "at_line n = \<lparr>file_name = ''file.tp'', start = \<lparr>line = n, column = 1\<rparr>\<rparr>"

definition use :: "string \<Rightarrow> int \<Rightarrow> ident" where
  "use n l = \<lparr>name = n, location = at_line l\<rparr>"

definition no_symbols :: symbol_table where
  "no_symbols = Map.empty"

definition declares :: "string \<Rightarrow> int \<Rightarrow> symbol_table" where
  "declares n l = no_symbols(n \<mapsto> at_line l)"




text \<open>\<^verbatim>\<open>{ let a = a }\<close> on lines 1 to 3: the initializer names the variable being declared.\<close>

definition self_reference :: "string statement" where
  "self_reference =
     Block (declares ''a'' 2)
       [Declaration (use ''a'' 2) (Some (Identifier (use ''a'' 2)))]"

text \<open>\<^verbatim>\<open>{ let a = b }\<close> on lines 1 to 3: the initializer names a variable declared nowhere.\<close>

definition undeclared_initializer :: "string statement" where
  "undeclared_initializer =
     Block (declares ''a'' 2)
       [Declaration (use ''a'' 2) (Some (Identifier (use ''b'' 2)))]"

text \<open>\<^verbatim>\<open>{ let a = (1) }\<close> on lines 1 to 3: the initializer is a parenthesised number.\<close>

definition parenthesised_initializer :: "string statement" where
  "parenthesised_initializer =
     Block (declares ''a'' 2)
       [Declaration (use ''a'' 2) (Some (ParentheseExpression (Number ''1.0'')))]"

text \<open>A host for running the emitter on samples: a number is its own text, a template
  renders to its name followed by the text bindings, a set is iterated in sorted order.\<close>

fun binding_text :: "string \<times> binding \<Rightarrow> string" where
  "binding_text (k, Text s) = s"
| "binding_text (k, Flag b) = (if b then ''1'' else ''0'')"

definition sample_render :: "string \<Rightarrow> (string \<times> binding) list \<Rightarrow> string" where
  "sample_render template_name kwargs = template_name @ concat (map binding_text kwargs)"

definition sample_host :: "string host" where
  "sample_host = \<lparr>str = id, render = sample_render, iteration = sorted_list_of_set\<rparr>"

section \<open>Emitted text\<close>

text \<open>
  \<open>emitted h e\<close> is the text that emitting expression \<open>e\<close> leaves in the buffer of a fresh
  emitter, if the emission returns. \<open>flattenable e\<close> holds when \<open>e\<close> is built from
  \<^verbatim>\<open>Number\<close>, \<^verbatim>\<open>Identifier\<close>, \<^verbatim>\<open>BinaryExpression\<close> and \<^verbatim>\<open>UnaryExpression\<close> nodes only.
\<close>

definition emitted :: "'n host \<Rightarrow> 'n expression \<Rightarrow> string option" where
  "emitted h e =
     (case emit_expression h e Emitter of
        Inl err \<Rightarrow> None
      | Inr self \<Rightarrow> Some (code self))"

fun flattenable :: "'n expression \<Rightarrow> bool" where
  "flattenable (Number v) = True"
| "flattenable (Identifier i) = True"
| "flattenable (String s) = False"
| "flattenable (BinaryExpression operator left right) = (flattenable left \<and> flattenable right)"
| "flattenable (UnaryExpression operator v) = flattenable v"
| "flattenable (Comparison operator left right) = False"
| "flattenable (ParentheseExpression v) = False"

text \<open>\<^verbatim>\<open>{ let a }\<close> on lines 1 to 3, and \<^verbatim>\<open>{ let a  input a  print "hi" }\<close> on lines 1 to 5:
  two builtin statements that both require \<^verbatim>\<open>stdio.h\<close>.\<close>

definition declaration_only :: "string statement" where
  "declaration_only = Block (declares ''a'' 2) [Declaration (use ''a'' 2) None]"

definition two_builtins :: "string statement" where
  "two_builtins =
     Block (declares ''a'' 2)
       [Declaration (use ''a'' 2) None,
        Input (use ''a'' 3),
        Print (String ''hi'')]"

section \<open>Properties of the analyzer\<close>

lemma is_defined_loop_visible:
  "is_defined_loop tables i \<longleftrightarrow> visible tables i"
  by (induction tables) (auto simp: visible_def lookup_def split: option.splits)

lemma is_defined_visible: "is_defined tables i \<longleftrightarrow> visible tables i"
  by (simp add: is_defined_def is_defined_loop_visible) (simp add: visible_def)


lemma analyze_stack:
  "analyze_statement ts (s :: 'n statement) = Inr ts' \<Longrightarrow> ts' = ts"
  "analyze_statements ts (ss :: 'n statement list) = Inr ts' \<Longrightarrow> ts' = ts"
  by (induction ts s and ts ss arbitrary: ts' and ts' rule: analyze_statement_analyze_statements.induct)
     (auto simp: pop_def split: sum.splits if_splits expression.splits)

lemma analyze_expression_ok:
  "analyze_expression ts e = Inr () \<longleftrightarrow> expression_accepted ts e"
  by (induction e) (auto simp: expression_accepted_def is_defined_visible split: sum.splits)

lemma analyze_expression_error:
  "analyze_expression ts e = Inl err \<Longrightarrow>
     err = AssertionError \<or>
     (\<exists>i \<in> set (identifiers e). \<not> visible ts i \<and>
        err = TaipanSemanticError (location i) (not_defined_message (name i)))"
  by (induction e) (auto simp: is_defined_visible split: sum.splits if_splits)

lemma identifier_not_visible:
  "\<not> visible ts i \<Longrightarrow>
     analyze_expression ts (Identifier i) =
       Inl (TaipanSemanticError (location i) (not_defined_message (name i)))"
  by (simp add: is_defined_visible)

lemma analyze_expression_rejected:
  "analyze_expression ts e = Inl err \<Longrightarrow> \<not> expression_accepted ts e"
  using analyze_expression_ok[of ts e] by auto

lemma analyze_expression_cases:
  "(analyze_expression ts e = Inr ()) \<or> (\<exists>err. analyze_expression ts e = Inl err)"
  by (cases "analyze_expression ts e") auto

lemma analyze_accepted:
  "analyze_statement ts (s :: 'n statement) = Inr ts \<longleftrightarrow> accepted ts s"
  "analyze_statements ts (ss :: 'n statement list) = Inr ts \<longleftrightarrow> (\<forall>s \<in> set ss. accepted ts s)"
proof (induction ts s and ts ss rule: analyze_statement_analyze_statements.induct)
  case (1 symbol_tables table statements)
  then show ?case
    by (auto simp: pop_def split: sum.splits dest: analyze_stack(2))
next
  case (9 symbol_tables statement statements)
  then show ?case
    by (auto split: sum.splits dest: analyze_stack(1))
qed (auto simp: analyze_expression_ok[symmetric] is_defined_visible
       split: sum.splits expression.splits)

lemma analyze_succeeds_iff:
  "analyze ast = Inr () \<longleftrightarrow> accepted [] (block (root ast))"
  by (auto simp: analyze_def analyze_accepted(1)[symmetric] split: sum.splits
      dest: analyze_stack(1))

lemma visit_error_mono:
  "visit_error uses err \<Longrightarrow> set uses \<subseteq> set uses' \<Longrightarrow> visit_error uses' err"
  unfolding visit_error_def undeclared_use_error_def by blast

lemma analyze_expression_visit_error:
  "analyze_expression ts e = Inl err \<Longrightarrow> visit_error (map (Pair ts) (identifiers e)) err"
  unfolding visit_error_def undeclared_use_error_def
  by (drule analyze_expression_error) auto

lemma analyze_identifier_visit_error:
  "analyze_expression ts (Identifier i) = Inl err \<Longrightarrow> visit_error [(ts, i)] err"
  by (drule analyze_expression_visit_error) simp

lemma analyze_visit_error:
  "analyze_statement ts (s :: 'n statement) = Inl err \<Longrightarrow> visit_error (checked_uses ts s) err"
  "analyze_statements ts (ss :: 'n statement list) = Inl err \<Longrightarrow>
     visit_error (concat (map (checked_uses ts) ss)) err"
proof (induction ts s and ts ss rule: analyze_statement_analyze_statements.induct)
  case (1 symbol_tables table statements)
  then show ?case
    by (auto simp: pop_def split: sum.splits if_splits dest: analyze_stack(2))
next
  case (2 symbol_tables condition body)
  then show ?case
    by (auto split: sum.splits dest!: analyze_expression_visit_error
        elim: visit_error_mono)
next
  case (3 symbol_tables condition body)
  then show ?case
    by (auto split: sum.splits dest!: analyze_expression_visit_error
        elim: visit_error_mono)
next
  case (4 symbol_tables i)
  then show ?case
    by (auto simp del: analyze_expression.simps split: sum.splits
        dest!: analyze_identifier_visit_error)
next
  case (5 symbol_tables v)
  show ?case
  proof (cases "\<exists>s. v = String s")
    case True
    with 5 show ?thesis by auto
  next
    case False
    with 5 have "analyze_expression symbol_tables v = Inl err"
      by (cases v) (auto split: sum.splits)
    then show ?thesis
      by (auto dest!: analyze_expression_visit_error)
  qed
next
  case (6 symbol_tables i expr)
  show ?case
  proof (cases "analyze_expression symbol_tables (Identifier i :: 'n expression)")
    case (Inl e)
    with 6 have "analyze_expression symbol_tables (Identifier i :: 'n expression) = Inl err"
      by (simp del: analyze_expression.simps)
    then have "visit_error [(symbol_tables, i)] err"
      by (rule analyze_identifier_visit_error)
    then show ?thesis
      by (rule visit_error_mono) auto
  next
    case (Inr u)
    with 6 have "analyze_expression symbol_tables expr = Inl err"
      by (auto simp del: analyze_expression.simps split: sum.splits)
    then have "visit_error (map (Pair symbol_tables) (identifiers expr)) err"
      by (rule analyze_expression_visit_error)
    then show ?thesis
      by (rule visit_error_mono) auto
  qed
next
  case (9 symbol_tables statement statements)
  show ?case
  proof (cases "analyze_statement symbol_tables statement")
    case (Inl e)
    with 9 have "visit_error (checked_uses symbol_tables statement) err"
      by simp
    then show ?thesis
      by (rule visit_error_mono) auto
  next
    case (Inr ts')
    then have "ts' = symbol_tables" by (rule analyze_stack(1))
    with 9 Inr have "visit_error (concat (map (checked_uses symbol_tables) statements)) err"
      by simp
    then show ?thesis
      by (rule visit_error_mono) auto
  qed
qed auto

lemma accepted_uses_visible:
  "accepted ts (s :: 'n statement) \<Longrightarrow> (tables, i) \<in> set (checked_uses ts s) \<Longrightarrow> visible tables i"
  by (induction ts s arbitrary: tables i rule: checked_uses.induct)
     (auto simp: expression_accepted_def split: expression.splits)

lemma visited_undeclared_use_error:
  assumes "(tables, i) \<in> set (checked_uses enclosing (s :: 'n statement))" "\<not> visible tables i"
  shows "\<exists>err. analyze_statement enclosing s = Inl err \<and>
           visit_error (checked_uses enclosing s) err"
proof -
  from assms have "\<not> accepted enclosing s"
    using accepted_uses_visible by blast
  then have "analyze_statement enclosing s \<noteq> Inr enclosing"
    by (simp add: analyze_accepted(1))
  then obtain err where err: "analyze_statement enclosing s = Inl err"
    using analyze_stack(1)[of enclosing s]
    by (cases "analyze_statement enclosing s") auto
  with analyze_visit_error(1)[OF err] show ?thesis by blast
qed


lemmas sample_defs = at_line_def use_def no_symbols_def declares_def visible_def
  is_defined_def lookup_def not_defined_message_def pop_def

text \<open>
  Claim C10. A \<^verbatim>\<open>Print\<close> statement whose value is a \<^verbatim>\<open>String\<close> literal is not traversed by the
  analyzer: whatever the string and whatever the scope stack, analysis of the statement
  succeeds and leaves the stack as it was.
\<close>
theorem print_string_not_analyzed:
  "analyze_statement symbol_tables (Print (String s)) = Inr symbol_tables"
  by simp

text \<open>
  Claim C2 says that the initializer of a declaration is analyzed, so that a self-referential
  initializer is rejected. The \<^verbatim>\<open>Declaration\<close> case of \<^verbatim>\<open>_analyze_statement\<close> is \<^verbatim>\<open>pass\<close>: on
  \<^verbatim>\<open>let a = a\<close> (line 2) the statement is accepted, although the analysis of the initializer
  on its own, with the same scope stack, raises the semantic error for \<^verbatim>\<open>a\<close>.
\<close>
theorem declaration_initializer_not_analyzed:
  "analyze_statement [declares ''a'' 2]
      (Declaration (use ''a'' 2) (Some (Identifier (use ''a'' 2) :: string expression)))
     = Inr [declares ''a'' 2]
   \<and> analyze_expression [declares ''a'' 2] (Identifier (use ''a'' 2) :: string expression)
     = Inl (TaipanSemanticError (at_line 2) (not_defined_message ''a''))"
  by (simp add: sample_defs)

text \<open>
  Claim C1 says that analysis succeeds exactly when every identifier use has a visible,
  strictly earlier declaration. On the program \<^verbatim>\<open>{ let a = a }\<close> the analyzer succeeds
  although the use of \<^verbatim>\<open>a\<close> in the initializer has no declaration on an earlier line.
\<close>
theorem analyze_accepts_undeclared_use:
  "analyze (AST (Program self_reference)) = Inr ()
   \<and> \<not> uses_declared [] self_reference"
  by (simp add: analyze_def self_reference_def sample_defs)

text \<open>
  Claim C3 says that whenever an identifier use has no table on the scope stack holding its
  name with a strictly earlier declaration line, the analyzer fails with the semantic error
  \<^verbatim>\<open>Identifier '<name>' is not defined\<close> at the location of the use. On the program
  \<^verbatim>\<open>{ let a = b }\<close> the use of \<^verbatim>\<open>b\<close> on line 2 has no such table, yet the analyzer returns
  without error; \<^verbatim>\<open>_analyze_expression\<close> on that very use and stack does raise the error the
  claim describes. For the uses the analyzer visits, the error is as the claim says
  (\<open>identifier_not_visible\<close>, \<open>visited_undeclared_use_error\<close>).
\<close>
theorem undeclared_use_not_reported:
  "\<not> visible [declares ''a'' 2] (use ''b'' 2)
   \<and> analyze (AST (Program undeclared_initializer)) = Inr ()
   \<and> analyze_expression [declares ''a'' 2] (Identifier (use ''b'' 2) :: string expression) =
       Inl (TaipanSemanticError (at_line 2)
              (''Identifier '' @ [CHR 0x27] @ ''b'' @ [CHR 0x27] @ '' is not defined''))"
  by (simp add: analyze_def undeclared_initializer_def sample_defs)



section \<open>Properties of the emitter\<close>

lemma emit_function_print:
  "emit_function h ''print'' kwargs self =
     Inr (self\<lparr>libraries := insert ''stdio.h'' (libraries self),
               code := code self @ render h ''print.j2'' kwargs\<rparr>)"
  by (simp add: emit_function_def FUNCTION_MAPPING_def FUNCTIONS_def)

lemma emit_function_input:
  "emit_function h ''input'' kwargs self =
     Inr (self\<lparr>libraries := insert ''stdio.h'' (libraries self),
               code := code self @ render h ''input.j2'' kwargs\<rparr>)"
  by (simp add: emit_function_def FUNCTION_MAPPING_def FUNCTIONS_def)

lemma emit_expression_uniform:
  "(\<exists>t. \<forall>self. emit_expression h e self = Inr (append_code t self))
   \<or> (\<forall>self. emit_expression h e self = Inl AssertionError)"
proof (induction e)
  case (BinaryExpression operator left right)
  then show ?case
    by (elim disjE exE) (auto simp: append_code_def intro: exI[of _ "_ @ operator @ _"])
next
  case (Comparison operator left right)
  then show ?case
    by (elim disjE exE) (auto simp: append_code_def intro: exI[of _ "_ @ operator @ _"])
next
  case (UnaryExpression operator v)
  then show ?case
    by (elim disjE exE) (auto simp: append_code_def intro: exI[of _ "operator @ _"])
qed (auto simp: append_code_def)

lemma emit_expression_emitted:
  "emit_expression h e self =
     (case emitted h e of None \<Rightarrow> Inl AssertionError | Some t \<Rightarrow> Inr (append_code t self))"
  using emit_expression_uniform[of h e]
  by (auto simp: emitted_def Emitter_def append_code_def)

lemma emit_expression_error:
  "emit_expression h e self = Inl err \<Longrightarrow> err = AssertionError"
  using emit_expression_emitted[of h e self] by (auto split: option.splits)

lemma emitted_Some:
  "emitted h e = Some t \<Longrightarrow> emit_expression h e self = Inr (append_code t self)"
  by (simp add: emit_expression_emitted)

lemma append_code_append: "append_code b (append_code a self) = append_code (a @ b) self"
  by (simp add: append_code_def)

lemma operators_emitted_when_operands_emit:
  "(emitted h left = Some l \<longrightarrow> emitted h right = Some r \<longrightarrow>
      emit_expression h (BinaryExpression operator left right) self =
        Inr (append_code (l @ operator @ r) self)
      \<and> emit_expression h (Comparison operator left right) self =
        Inr (append_code (l @ operator @ r) self))
   \<and> (emitted h v = Some t \<longrightarrow>
        emit_expression h (UnaryExpression operator v) self =
          Inr (append_code (operator @ t) self))"
  by (simp add: emitted_Some append_code_append)

lemma declaration_emitted_when_initializer_emits:
  "emit_statement h (Declaration i None) self =
     Inr (append_code (''double '' @ name i @ ''='' @ ''0.0'' @ '';'') self)
   \<and> (emitted h expr = Some t \<longrightarrow>
        emit_statement h (Declaration i (Some expr)) self =
          Inr (append_code (''double '' @ name i @ ''='' @ t @ '';'') self))"
  by (simp add: emitted_Some append_code_append)

lemma emit_parenthese:
  "emit_expression h (ParentheseExpression v) self = Inl AssertionError"
  by simp

text \<open>
  Claim C9 says that every \<^verbatim>\<open>BinaryExpression\<close>, \<^verbatim>\<open>Comparison\<close> and \<^verbatim>\<open>UnaryExpression\<close> emits
  its operand texts around the operator's spelling, nesting being left to the
  \<^verbatim>\<open>ParentheseExpression\<close> nodes of the tree. \<^verbatim>\<open>Emitter.emit\<close> has no case for
  \<^verbatim>\<open>ParentheseExpression\<close>: a binary expression, comparison or unary expression with a
  parenthesised operand, such as \<^verbatim>\<open>2.0*(1.0)\<close>, fails the final assertion and emits no text.
  When the operands do emit, the text is as the claim says
  (\<open>operators_emitted_when_operands_emit\<close>).
\<close>
theorem parenthesised_operand_not_emitted:
  "emit_expression h (BinaryExpression operator left (ParentheseExpression v)) self =
     Inl AssertionError
   \<and> emit_expression h (BinaryExpression operator (ParentheseExpression v) right) self =
     Inl AssertionError
   \<and> emit_expression h (Comparison operator left (ParentheseExpression v)) self =
     Inl AssertionError
   \<and> emit_expression h (Comparison operator (ParentheseExpression v) right) self =
     Inl AssertionError
   \<and> emit_expression h (UnaryExpression operator (ParentheseExpression v)) self =
     Inl AssertionError
   \<and> emit_expression sample_host
       (BinaryExpression ''*'' (Number ''2.0'') (ParentheseExpression (Number ''1.0''))) Emitter =
     Inl AssertionError"
  by (auto split: sum.splits dest: emit_expression_error)

text \<open>
  Claim C8 says that every \<^verbatim>\<open>Declaration\<close> emits \<^verbatim>\<open>double <name>=<initializer text>;\<close>. For a
  declaration whose initializer is parenthesised, such as \<^verbatim>\<open>let a = (1)\<close>, the emission fails
  the final assertion of \<^verbatim>\<open>Emitter.emit\<close> instead. When the initializer is absent or does
  emit, the text is as the claim says (\<open>declaration_emitted_when_initializer_emits\<close>).
\<close>
theorem parenthesised_initializer_not_emitted:
  "emit_statement h (Declaration i (Some (ParentheseExpression v))) self = Inl AssertionError
   \<and> emit_statement sample_host parenthesised_initializer Emitter = Inl AssertionError"
  by (simp add: parenthesised_initializer_def)

text \<open>
  Claim C5. For a \<^verbatim>\<open>Print\<close> of a \<^verbatim>\<open>UnaryExpression\<close> whose operand flattens to a non-empty
  text \<open>s\<close>, \<^verbatim>\<open>to_string\<close> yields the operator's spelling followed by the first character of
  \<open>s\<close> only, and that text is the \<^verbatim>\<open>value\<close> binding handed to the \<^verbatim>\<open>print\<close> template. A unary
  minus over an operand that flattens to \<^verbatim>\<open>12\<close> gives \<^verbatim>\<open>-1\<close>.
\<close>
theorem unary_flattening_first_character:
  "to_string (str h) v = Inr s \<Longrightarrow> s \<noteq> [] \<Longrightarrow>
     to_string (str h) (UnaryExpression operator v) = Inr (operator @ [hd s])
     \<and> emit_statement h (Print (UnaryExpression operator v)) self =
         emit_function h ''print''
           [(''value'', Text (operator @ [hd s])), (''is_number'', Flag True)] self"
  by (cases s) simp_all

theorem unary_flattening_first_character_witness:
  "to_string (str sample_host) (Number ''12'') = Inr ''12'' \<and> ''12'' \<noteq> []
   \<and> to_string (str sample_host) (UnaryExpression ''-'' (Number ''12'')) = Inr ''-1''
   \<and> emit_statement sample_host (Print (UnaryExpression ''-'' (Number ''12''))) Emitter =
         emit_function sample_host ''print''
           [(''value'', Text ''-1''), (''is_number'', Flag True)] Emitter"
proof -
  have a: "to_string (str sample_host) (Number ''12'') = Inr ''12''"
    by (simp add: sample_host_def)
  have b: "''12'' \<noteq> []" by simp
  from unary_flattening_first_character[OF a b, of "''-''" Emitter] a b
  show ?thesis by simp
qed

lemma to_string_flattenable:
  "to_string str_of e = Inr s \<Longrightarrow> flattenable e"
  by (induction e arbitrary: s) (auto split: sum.splits list.splits)

lemma emit_print_expression:
  "\<forall>s. v \<noteq> String s \<Longrightarrow>
     emit_statement h (Print v) self =
       (case to_string (str h) v of
          Inl e \<Rightarrow> Inl e
        | Inr text \<Rightarrow>
            emit_function h ''print''
              [(''value'', Text text), (''is_number'', Flag True)] self)"
  by (cases v) simp_all

text \<open>
  Claim C6. \<^verbatim>\<open>to_string\<close> is defined on \<^verbatim>\<open>Number\<close>, \<^verbatim>\<open>Identifier\<close>, \<^verbatim>\<open>BinaryExpression\<close> and
  \<^verbatim>\<open>UnaryExpression\<close> nodes only: on a \<^verbatim>\<open>ParentheseExpression\<close> or a \<^verbatim>\<open>Comparison\<close> it fails
  its assertion, and so does the emission of a \<^verbatim>\<open>Print\<close> of such an expression, also when
  the node is the operand of a unary or the left operand of a binary expression. Whenever
  \<^verbatim>\<open>to_string\<close> returns a text the expression is built from the four supported nodes, and a
  \<^verbatim>\<open>Print\<close> of any other expression, unless it is a \<^verbatim>\<open>String\<close> literal itself (which is
  printed as text and never flattened), produces an error and no output.
\<close>
theorem to_string_partial:
  "to_string str_of (ParentheseExpression v) = Inl AssertionError
   \<and> to_string str_of (Comparison operator left right) = Inl AssertionError
   \<and> emit_statement h (Print (ParentheseExpression v)) self = Inl AssertionError
   \<and> emit_statement h (Print (Comparison operator left right)) self = Inl AssertionError
   \<and> emit_statement h (Print (UnaryExpression operator (ParentheseExpression v))) self =
       Inl AssertionError
   \<and> emit_statement h (Print (BinaryExpression operator (ParentheseExpression v) right)) self =
       Inl AssertionError
   \<and> (to_string str_of e = Inr s \<longrightarrow> flattenable e)
   \<and> (\<not> flattenable e \<longrightarrow> (\<forall>t. e \<noteq> String t) \<longrightarrow>
        (\<exists>err. emit_statement h (Print e) self = Inl err))"
proof -
  have "\<exists>err. emit_statement h (Print e) self = Inl err"
    if "\<not> flattenable e" "\<forall>t. e \<noteq> String t"
  proof (cases "to_string (str h) e")
    case (Inl err)
    have "emit_statement h (Print e) self = Inl err"
      unfolding emit_print_expression[OF that(2)] Inl by simp
    then show ?thesis by blast
  next
    case (Inr s)
    with that(1) show ?thesis using to_string_flattenable by blast
  qed
  then show ?thesis
    using to_string_flattenable[of str_of e s] by simp
qed

theorem to_string_partial_witness:
  "\<not> flattenable (BinaryExpression ''*'' (Number ''2.0'')
        (ParentheseExpression (BinaryExpression ''+'' (Number ''1.0'') (Number ''3.0''))))
   \<and> (\<exists>err. emit_statement sample_host
         (Print (BinaryExpression ''*'' (Number ''2.0'')
            (ParentheseExpression (BinaryExpression ''+'' (Number ''1.0'') (Number ''3.0'')))))
         Emitter = Inl err)
   \<and> to_string id (BinaryExpression ''+'' (Number ''1.0'') (Number ''3.0'')) = Inr ''1.0+3.0''
   \<and> flattenable (BinaryExpression ''+'' (Number ''1.0'') (Number ''3.0'') :: string expression)"
proof -
  have a: "\<not> flattenable (BinaryExpression ''*'' (Number ''2.0'')
        (ParentheseExpression (BinaryExpression ''+'' (Number ''1.0'') (Number ''3.0''))) :: string expression)"
    by simp
  have a': "\<forall>t. (BinaryExpression ''*'' (Number ''2.0'')
        (ParentheseExpression (BinaryExpression ''+'' (Number ''1.0'') (Number ''3.0''))) :: string expression)
        \<noteq> String t"
    by simp
  have b: "to_string id (BinaryExpression ''+'' (Number ''1.0'') (Number ''3.0'')) = Inr ''1.0+3.0''"
    by simp
  from to_string_partial[of id "Number ''1.0''" "''+''" "Number ''1.0''" "Number ''1.0''" sample_host Emitter
      "BinaryExpression ''+'' (Number ''1.0'') (Number ''3.0'')" "''1.0+3.0''"] b
  have c: "flattenable (BinaryExpression ''+'' (Number ''1.0'') (Number ''3.0'') :: string expression)"
    by blast
  from to_string_partial[of id "Number ''1.0''" "''+''" "Number ''1.0''" "Number ''1.0''" sample_host Emitter
      "BinaryExpression ''*'' (Number ''2.0'')
        (ParentheseExpression (BinaryExpression ''+'' (Number ''1.0'') (Number ''3.0'')))" "''x''"] a a'
  have d: "\<exists>err. emit_statement sample_host
         (Print (BinaryExpression ''*'' (Number ''2.0'')
            (ParentheseExpression (BinaryExpression ''+'' (Number ''1.0'') (Number ''3.0'')))))
         Emitter = Inl err"
    by blast
  from a b c d show ?thesis by blast
qed

lemma emit_expression_libraries:
  "emit_expression h e self = Inr self' \<Longrightarrow> libraries self' = libraries self"
  using emit_expression_emitted[of h e self]
  by (auto simp: append_code_def split: option.splits)

lemma emit_libraries:
  "emit_statement h (s :: 'n statement) self = Inr self' \<Longrightarrow>
     libraries self' \<subseteq> insert ''stdio.h'' (libraries self)"
  "emit_statements h (ss :: 'n statement list) self = Inr self' \<Longrightarrow>
     libraries self' \<subseteq> insert ''stdio.h'' (libraries self)"
proof (induction h s self and h ss self arbitrary: self' and self'
    rule: emit_statement_emit_statements.induct)
  case (2 h condition body self)
  then show ?case
    by (fastforce simp: append_code_def split: sum.splits dest: emit_expression_libraries)
next
  case (3 h condition body self)
  then show ?case
    by (fastforce simp: append_code_def split: sum.splits dest: emit_expression_libraries)
next
  case (10 h statement statements self)
  then show ?case
    by (fastforce split: sum.splits)
qed (auto simp: emit_function_print emit_function_input append_code_def
       split: sum.splits expression.splits dest: emit_expression_libraries)

lemma header_fold:
  "foldl (\<lambda>c library. include_directive library @ c) c0 libs =
     concat (map include_directive (rev libs)) @ c0"
  by (induction libs arbitrary: c0) auto

text \<open>
  Claim C7 says that for every program the final text is the include directives followed by
  \<^verbatim>\<open>"int main(){" ++ body ++ "return 0;}"\<close>. On the program \<^verbatim>\<open>{ let a }\<close>, which requires no
  library and whose statement text is \<^verbatim>\<open>double a=0.0;\<close>, the emitted text is that function
  followed by a newline, so it is not the text the claim gives. On the program
  \<^verbatim>\<open>{ let a = (1) }\<close> the emission fails an assertion and there is no final text at all.
\<close>
theorem program_text_counterexample:
  "emit_statement sample_host declaration_only Emitter =
     Inr \<lparr>code = ''double a=0.0;'', libraries = {}\<rparr>
   \<and> emit sample_host (Program declaration_only) Emitter =
     Inr \<lparr>code = ''int main(){double a=0.0;return 0;}'' @ [CHR 0x0A], libraries = {}\<rparr>
   \<and> emit sample_host (Program declaration_only) Emitter \<noteq>
     Inr \<lparr>code = ''int main(){'' @ ''double a=0.0;'' @ ''return 0;}'', libraries = {}\<rparr>
   \<and> emit sample_host (Program parenthesised_initializer) Emitter = Inl AssertionError"
  by (simp add: declaration_only_def parenthesised_initializer_def Emitter_def append_code_def
      use_def emit_main_def emit_header_def sample_host_def)

text \<open>
  Claim C7, amended. When the statements of a program are emitted with text \<open>body\<close>, the final
  text is one \<^verbatim>\<open>#include<library>\<close> line per required library, each library exactly once
  (the only library a builtin statement requires is \<^verbatim>\<open>stdio.h\<close>), followed by
  \<^verbatim>\<open>int main(){\<close>, the body, \<^verbatim>\<open>return 0;}\<close> and a final newline. Nothing is said of a
  program whose statements fail to emit. The order in which Python iterates over the set of
  libraries is a parameter; it is only assumed to enumerate a finite set without repetition.
\<close>
theorem emitted_program_shape:
  assumes order: "\<forall>S. finite S \<longrightarrow> set (iteration h S) = S \<and> distinct (iteration h S)"
    and body: "emit_statement h b Emitter = Inr body"
  shows "\<exists>libs. set libs = libraries body \<and> distinct libs \<and> set libs \<subseteq> {''stdio.h''} \<and>
           emit h (Program b) Emitter =
             Inr (body\<lparr>code := concat (map include_directive libs) @
                              ''int main(){'' @ code body @ ''return 0;}'' @ [CHR 0x0A]\<rparr>)"
proof -
  from emit_libraries(1)[OF body] have sub: "libraries body \<subseteq> {''stdio.h''}"
    by (simp add: Emitter_def)
  then have fin: "finite (libraries body)"
    by (rule finite_subset) simp
  let ?libs = "rev (iteration h (libraries body))"
  from order fin have "set ?libs = libraries body" "distinct ?libs" by auto
  moreover have "emit h (Program b) Emitter =
             Inr (body\<lparr>code := concat (map include_directive ?libs) @
                              ''int main(){'' @ code body @ ''return 0;}'' @ [CHR 0x0A]\<rparr>)"
    using body by (simp add: emit_header_def emit_main_def header_fold)
  ultimately show ?thesis using sub by blast
qed

theorem emitted_program_shape_witness:
  "\<exists>libs. set libs = {''stdio.h''} \<and> distinct libs \<and> set libs \<subseteq> {''stdio.h''} \<and>
      emit sample_host (Program two_builtins) Emitter =
        Inr \<lparr>code = concat (map include_directive libs) @ ''int main(){'' @
                 (''double a=0.0;'' @ ''input.j2a'' @ ''print.j2hi0'') @ ''return 0;}'' @ [CHR 0x0A],
             libraries = {''stdio.h''}\<rparr>"
proof -
  have order: "\<forall>S. finite S \<longrightarrow> set (iteration sample_host S) = S \<and> distinct (iteration sample_host S)"
    by (simp add: sample_host_def)
  have body: "emit_statement sample_host two_builtins Emitter =
      Inr \<lparr>code = ''double a=0.0;'' @ ''input.j2a'' @ ''print.j2hi0'', libraries = {''stdio.h''}\<rparr>"
    by (simp add: two_builtins_def Emitter_def append_code_def use_def emit_function_print
        emit_function_input sample_host_def sample_render_def)
  from emitted_program_shape[OF order body] show ?thesis by simp
qed

end
